theory Spec2Isabelle
  imports Main "HOL-Library.FSet"
begin

section \<open>Python values, exceptions\<close>

text \<open>
  The exceptions the modelled code can raise. The two \<open>RuntimeError\<close>s of
  \<open>GPTAPI._chat\<close> are kept apart by constructor instead of by message text:
  \<open>AllKeysInsufficientQuota\<close> is \<^verbatim>\<open>RuntimeError('All keys have insufficient quota.')\<close>
  and \<open>CallingFailed n errmsg\<close> is the \<^verbatim>\<open>RuntimeError\<close> raised after the retry loop,
  whose message holds the retry counter \<open>n\<close> and the last recorded \<open>errmsg\<close>.
\<close>

datatype exn =
    AssertionError
  | KeyError
  | IndexError
  | TypeError
  | AttributeError
  | UnboundLocalError
  | ValueError
  | NotImplementedError
  | AllKeysInsufficientQuota
  | CallingFailed int string

text \<open>
  A turn of a dialogue that is a dict: \<^verbatim>\<open>{role, content, name}\<close>, each key possibly
  absent. The values are strings.
\<close>

record message =
  msg_role :: "string option"
  msg_content :: "string option"
  msg_name :: "string option"

text \<open>
  The values that reach the parser and the client: a \<^verbatim>\<open>str\<close>, a \<^verbatim>\<open>dict\<close> or a \<^verbatim>\<open>list\<close>
  of such values.
\<close>

datatype pyval =
    Raw string
  | Msg message
  | Lst "pyval list"

section \<open>The prompt template parser (base_llm.py)\<close>

text \<open>
  The \<^verbatim>\<open>begin\<close> entry of a role configuration is a string or a dict with the keys
  \<^verbatim>\<open>with_name\<close>, \<^verbatim>\<open>without_name\<close> and \<^verbatim>\<open>name\<close> (a table of known names), each
  possibly absent.
\<close>

record begin_dict =
  with_name :: "string option"
  without_name :: "string option"
  name_table :: "(string \<rightharpoonup> string) option"

datatype begin_val = BeginStr string | BeginDict begin_dict

text \<open>
  One entry of the meta template. The key \<^verbatim>\<open>role\<close> is read by \<^verbatim>\<open>__init__\<close> with
  \<^verbatim>\<open>item['role']\<close>, so an entry always has it; the other keys are read with
  \<^verbatim>\<open>.get\<close> and may be absent.
\<close>

record role_cfg =
  cfg_role :: string
  cfg_begin :: "begin_val option"
  cfg_end :: "string option"
  cfg_fallback_role :: "string option"
  cfg_generate :: "bool option"

text \<open>
  The parser object: the attribute \<^verbatim>\<open>meta_template\<close> is always set, the attribute
  \<^verbatim>\<open>roles\<close> only when the meta template is truthy (\<open>None\<close> here is the attribute
  that was never assigned).
\<close>

record parser =
  meta_template :: "role_cfg list option"
  roles :: "(string \<rightharpoonup> role_cfg) option"

text \<open>
  \<^verbatim>\<open>str.format(name=v)\<close> belongs to the Python runtime, not to the repository; the
  parser is modelled for every behaviour of it, as a parameter: template, value of
  \<^verbatim>\<open>name\<close>, result or exception.
\<close>

type_synonym str_format = "string \<Rightarrow> string \<Rightarrow> exn + string"

text \<open>The loop of \<^verbatim>\<open>__init__\<close> over the items of the meta template.\<close>

fun init_roles :: "role_cfg list \<Rightarrow> (string \<rightharpoonup> role_cfg) \<Rightarrow> exn + (string \<rightharpoonup> role_cfg)" where
  "init_roles [] rs = Inr rs"
| "init_roles (item # items) rs =
     (if cfg_role item \<in> dom rs then Inl AssertionError
      else init_roles items (rs(cfg_role item \<mapsto> item)))"

text \<open>\<^verbatim>\<open>LMTemplateParser.__init__\<close>: \<^verbatim>\<open>None\<close> and the empty list are falsy.\<close>

definition init :: "role_cfg list option \<Rightarrow> exn + parser" where
  "init mt =
     (case mt of
        None \<Rightarrow> Inr \<lparr>meta_template = mt, roles = None\<rparr>
      | Some [] \<Rightarrow> Inr \<lparr>meta_template = mt, roles = None\<rparr>
      | Some items \<Rightarrow>
          (case init_roles items Map.empty of
             Inl e \<Rightarrow> Inl e
           | Inr rs \<Rightarrow> Inr \<lparr>meta_template = mt, roles = Some rs\<rparr>))"

text \<open>
  \<^verbatim>\<open>_format_begin(role_cfg, message)\<close>. The configuration may be Python's \<^verbatim>\<open>None\<close>
  (what \<^verbatim>\<open>self.roles.get\<close> returns for an unknown role): subscripting it is a
  \<^verbatim>\<open>TypeError\<close>, calling \<^verbatim>\<open>.get\<close> on it an \<^verbatim>\<open>AttributeError\<close>, as is \<^verbatim>\<open>.get\<close> on a
  \<^verbatim>\<open>begin\<close> that is a string.
\<close>

definition format_begin :: "str_format \<Rightarrow> role_cfg option \<Rightarrow> message \<Rightarrow> exn + string" where
  "format_begin fmt role_cfg message =
     (case msg_name message of
        Some nm \<Rightarrow>
          (case role_cfg of
             None \<Rightarrow> Inl TypeError
           | Some cfg \<Rightarrow>
               (case cfg_begin cfg of
                  None \<Rightarrow> Inl KeyError
                | Some (BeginStr s) \<Rightarrow> Inl AttributeError
                | Some (BeginDict d) \<Rightarrow>
                    (let begin = (case with_name d of None \<Rightarrow> [] | Some w \<Rightarrow> w) in
                     case (case name_table d of None \<Rightarrow> None | Some t \<Rightarrow> t nm) of
                       Some known \<Rightarrow> fmt begin known
                     | None \<Rightarrow> fmt begin nm)))
      | None \<Rightarrow>
          (case role_cfg of
             None \<Rightarrow> Inl AttributeError
           | Some cfg \<Rightarrow>
               (case cfg_begin cfg of
                  None \<Rightarrow> Inr []
                | Some (BeginStr s) \<Rightarrow> Inr s
                | Some (BeginDict d) \<Rightarrow>
                    Inr (case without_name d of None \<Rightarrow> [] | Some w \<Rightarrow> w))))"

text \<open>The empty dict \<^verbatim>\<open>{}\<close> passed as message for the assistant's begin phrase.\<close>

definition empty_message :: message where
  "empty_message = \<lparr>msg_role = None, msg_content = None, msg_name = None\<rparr>"

text \<open>\<^verbatim>\<open>d.get(key, '')\<close> on an optional string entry.\<close>

definition get_str :: "string option \<Rightarrow> string" where
  "get_str v = (case v of None \<Rightarrow> [] | Some s \<Rightarrow> s)"

text \<open>
  \<^verbatim>\<open>_prompt2str(prompt, last)\<close> (the flag is \<open>is_last\<close> here). A fallback role
  that is absent or the empty string is falsy and does not redirect. The order of
  the failures is the order of evaluation of the source: \<^verbatim>\<open>self.roles\<close>,
  \<^verbatim>\<open>prompt['role']\<close>, \<^verbatim>\<open>merged_prompt.get\<close>.
\<close>

definition prompt2str :: "str_format \<Rightarrow> parser \<Rightarrow> pyval \<Rightarrow> bool \<Rightarrow> exn + string" where
  "prompt2str fmt self prompt is_last =
     (case prompt of
        Raw s \<Rightarrow> Inr s
      | Lst xs \<Rightarrow>
          (case roles self of None \<Rightarrow> Inl AttributeError | Some rs \<Rightarrow> Inl TypeError)
      | Msg m \<Rightarrow>
          (case roles self of
             None \<Rightarrow> Inl AttributeError
           | Some rs \<Rightarrow>
               (case msg_role m of
                  None \<Rightarrow> Inl KeyError
                | Some r \<Rightarrow>
                    (case rs r of
                       None \<Rightarrow> Inl AttributeError
                     | Some first \<Rightarrow>
                         (let merged_prompt =
                            (case cfg_fallback_role first of
                               None \<Rightarrow> Some first
                             | Some fb \<Rightarrow> if fb = [] then Some first else rs fb)
                          in case format_begin fmt merged_prompt m of
                               Inl e \<Rightarrow> Inl e
                             | Inr begin \<Rightarrow>
                                 (case merged_prompt of
                                    None \<Rightarrow> Inl AttributeError
                                  | Some mp \<Rightarrow>
                                      if is_last \<and> cfg_generate mp = Some True
                                      then Inr (begin @ get_str (msg_content m))
                                      else
                                        (let res = begin @ get_str (msg_content m)
                                                     @ get_str (cfg_end mp)
                                         in if is_last \<and> cfg_role mp \<noteq> ''assistant''
                                            then (case rs ''assistant'' of
                                                    None \<Rightarrow> Inl KeyError
                                                  | Some a \<Rightarrow>
                                                      (case format_begin fmt (Some a) empty_message of
                                                         Inl e \<Rightarrow> Inl e
                                                       | Inr ab \<Rightarrow> Inr (res @ ab)))
                                            else Inr res)))))))"

text \<open>
  The loop \<^verbatim>\<open>for index, item in enumerate(dialog)\<close> of \<^verbatim>\<open>__call__\<close>: \<open>n\<close> is
  \<^verbatim>\<open>len(dialog)\<close>, \<open>index\<close> the position of the head of the remaining items, and the
  flag passed to \<^verbatim>\<open>_prompt2str\<close> is \<^verbatim>\<open>index == len(dialog) - 1\<close>.
\<close>

fun render_loop :: "str_format \<Rightarrow> parser \<Rightarrow> nat \<Rightarrow> nat \<Rightarrow> pyval list \<Rightarrow> string \<Rightarrow> exn + string" where
  "render_loop fmt self n index [] prompt = Inr prompt"
| "render_loop fmt self n index (item # items) prompt =
     (case item of
        Raw s \<Rightarrow> render_loop fmt self n (Suc index) items (prompt @ s)
      | _ \<Rightarrow>
          (case prompt2str fmt self item (int index = int n - 1) of
             Inl e \<Rightarrow> Inl e
           | Inr new_str \<Rightarrow> render_loop fmt self n (Suc index) items (prompt @ new_str)))"

text \<open>Truthiness of the attribute \<^verbatim>\<open>meta_template\<close>.\<close>

definition truthy_template :: "role_cfg list option \<Rightarrow> bool" where
  "truthy_template mt = (case mt of None \<Rightarrow> False | Some items \<Rightarrow> items \<noteq> [])"

text \<open>
  \<^verbatim>\<open>LMTemplateParser.__call__\<close>. The variable \<^verbatim>\<open>prompt\<close> is assigned only under
  \<^verbatim>\<open>if self.meta_template\<close>, and \<^verbatim>\<open>return prompt\<close> stands after it.
\<close>

definition call :: "str_format \<Rightarrow> parser \<Rightarrow> pyval \<Rightarrow> exn + string" where
  "call fmt self dialog =
     (case dialog of
        Msg m \<Rightarrow> Inl AssertionError
      | Raw s \<Rightarrow> Inr s
      | Lst items \<Rightarrow>
          if truthy_template (meta_template self)
          then render_loop fmt self (length items) 0 items []
          else Inl UnboundLocalError)"

text \<open>
  A stand-in for \<^verbatim>\<open>str.format\<close> in the concrete examples: it replaces the field
  \<^verbatim>\<open>{name}\<close> where the template starts with it and copies the other characters.
\<close>

fun simple_format :: "string \<Rightarrow> string \<Rightarrow> string" where
  "simple_format [] v = []"
| "simple_format (c # cs) v =
     (if take 6 (c # cs) = ''{name}'' then v @ simple_format (drop 5 cs) v
      else c # simple_format cs v)"

definition example_format :: str_format where
  "example_format t v = Inr (simple_format t v)"

section \<open>The OpenAI client (openai.py)\<close>

text \<open>
  The values of the generation parameters and of the request body. \<open>'p\<close> is the type
  of what the template parser returns. Numeric parameters are integers here.
\<close>

datatype 'p val =
    VInt int
  | VStr string
  | VList "string list"
  | VNone
  | VPrompt 'p
  | VDict "(string \<times> string) list"

type_synonym 'p params = "string \<rightharpoonup> 'p val"

text \<open>
  The request headers: \<^verbatim>\<open>content-type\<close>, \<^verbatim>\<open>Authorization\<close> and
  \<^verbatim>\<open>OpenAI-Organization\<close>.
\<close>

record header =
  content_type :: string
  authorization :: "string option"
  organization :: "string option"

text \<open>\<^verbatim>\<open>str.lower\<close> on the ASCII letters, and \<^verbatim>\<open>str.startswith\<close>.\<close>

definition lower_char :: "char \<Rightarrow> char" where
  "lower_char c =
     (let n = (of_char c :: nat) in if 65 \<le> n \<and> n \<le> 90 then char_of (n + 32) else c)"

definition lower :: "string \<Rightarrow> string" where
  "lower s = map lower_char s"

definition startswith :: "string \<Rightarrow> string \<Rightarrow> bool" where
  "startswith s p = (take (length p) s = p)"

text \<open>\<^verbatim>\<open>gen_params[new] = gen_params.pop(old)\<close>, done when \<^verbatim>\<open>old\<close> is a key.\<close>

definition rename_key :: "string \<Rightarrow> string \<Rightarrow> 'p params \<Rightarrow> 'p params" where
  "rename_key old new gp =
     (case gp old of None \<Rightarrow> gp | Some v \<Rightarrow> (gp(old := None))(new \<mapsto> v))"

text \<open>
  \<^verbatim>\<open>{'model': model_type, 'messages': messages, 'n': 1, **gen_params}\<close>, then the
  response format when \<^verbatim>\<open>json_mode\<close> is set.
\<close>

definition request_body :: "string \<Rightarrow> 'p \<Rightarrow> 'p params \<Rightarrow> bool \<Rightarrow> 'p params" where
  "request_body model_type messages gp json_mode =
     (let data = [''model'' \<mapsto> VStr model_type, ''messages'' \<mapsto> VPrompt messages,
                  ''n'' \<mapsto> VInt 1] ++ gp
      in if json_mode then data(''response_format'' \<mapsto> VDict [(''type'', ''json_object'')])
         else data)"

text \<open>
  \<^verbatim>\<open>GPTAPI.generate_request_data\<close>. The result \<open>Inr None\<close> is the pair of empty
  strings returned when \<^verbatim>\<open>max_tokens <= 0\<close>. \<^verbatim>\<open>min\<close> of a non-number and 4096 is
  a \<^verbatim>\<open>TypeError\<close>.
\<close>

definition generate_request_data ::
  "string \<Rightarrow> 'p \<Rightarrow> 'p params \<Rightarrow> bool \<Rightarrow> exn + (header \<times> 'p params) option" where
  "generate_request_data model_type messages gen_params json_mode =
     (case gen_params ''max_new_tokens'' of
        None \<Rightarrow> Inl KeyError
      | Some (VInt n) \<Rightarrow>
          (let max_tokens = min n 4096 in
           if max_tokens \<le> 0 then Inr None
           else
             (let hdr = \<lparr>content_type = ''application/json'', authorization = None,
                         organization = None\<rparr>;
                  gp1 = (gen_params(''max_new_tokens'' := None))(''max_tokens'' \<mapsto> VInt max_tokens);
                  gp2 = rename_key ''stop_words'' ''stop'' gp1;
                  gp3 = rename_key ''repetition_penalty'' ''frequency_penalty'' gp2
              in if startswith (lower model_type) ''gpt'' \<or> startswith (lower model_type) ''qwen''
                 then
                   (let gp4 = gp3(''top_k'' := None, ''skip_special_tokens'' := None,
                                  ''session_id'' := None)
                    in Inr (Some (hdr, request_body model_type messages gp4 json_mode)))
                 else if startswith (lower model_type) ''internlm''
                 then Inr (Some (hdr, request_body model_type messages gp3 json_mode))
                 else Inl NotImplementedError))
      | Some other \<Rightarrow> Inl TypeError)"

text \<open>
  The instance state that \<^verbatim>\<open>_chat\<close> reads and writes. \<^verbatim>\<open>keys\<close>, \<^verbatim>\<open>invalid_keys\<close>,
  \<^verbatim>\<open>key_ctr\<close>, \<^verbatim>\<open>model_type\<close> and \<^verbatim>\<open>json_mode\<close> are set by \<^verbatim>\<open>GPTAPI.__init__\<close>;
  \<^verbatim>\<open>retry\<close>, \<^verbatim>\<open>orgs\<close> and \<^verbatim>\<open>org_ctr\<close> are attributes of the base class
  \<^verbatim>\<open>BaseAPILLM\<close> and taken as given (an empty \<open>orgs\<close> is the falsy case).
\<close>

record gptapi =
  keys :: "string list"
  invalid_keys :: "string fset"
  key_ctr :: nat
  orgs :: "string list"
  org_ctr :: nat
  retry :: int
  model_type :: string
  json_mode :: bool

text \<open>
  What one pass of the \<^verbatim>\<open>try\<close> block meets:
  \<^item> \<open>ConnectionError tb\<close>: \<^verbatim>\<open>requests.post\<close> raises \<^verbatim>\<open>requests.ConnectionError\<close>,
    \<open>tb\<close> is the text of \<^verbatim>\<open>traceback.format_exc()\<close>;
  \<^item> \<open>JSONDecodeError c\<close>: \<^verbatim>\<open>raw_response.json()\<close> raises, \<open>c\<close> is
    \<^verbatim>\<open>str(raw_response.content)\<close>;
  \<^item> \<open>Completion c\<close>: \<^verbatim>\<open>response['choices'][0]['message']['content']\<close> is \<open>c\<close>;
  \<^item> \<open>NoCompletion err\<close>: that lookup raises \<^verbatim>\<open>KeyError\<close>; \<open>err\<close> is the entry
    \<^verbatim>\<open>response['error']\<close> when the response has one, a dict whose \<^verbatim>\<open>code\<close> may be
    absent (reading it is then a \<^verbatim>\<open>KeyError\<close> raised inside the handler, which leaves
    \<^verbatim>\<open>_chat\<close>), with \<open>text_of\<close> the text \<^verbatim>\<open>str(response['error'])\<close>;
  \<^item> \<open>OtherException msg\<close>: any other exception, \<open>msg\<close> is the recorded text.
\<close>

record error_body =
  code :: "string option"
  text_of :: string

datatype outcome =
    ConnectionError string
  | JSONDecodeError string
  | Completion string
  | NoCompletion "error_body option"
  | OtherException string

text \<open>
  The remote endpoint: the outcome of the \<open>i\<close>-th HTTP call of a \<^verbatim>\<open>_chat\<close>, given the
  headers and the body sent.
\<close>

type_synonym 'p endpoint = "nat \<Rightarrow> header \<Rightarrow> 'p params \<Rightarrow> outcome"

text \<open>\<^verbatim>\<open>str.strip()\<close> on the ASCII whitespace characters.\<close>

definition is_space :: "char \<Rightarrow> bool" where
  "is_space c = ((of_char c :: nat) \<in> {9, 10, 11, 12, 13, 28, 29, 30, 31, 32})"

definition strip :: "string \<Rightarrow> string" where
  "strip s = rev (dropWhile is_space (rev (dropWhile is_space s)))"

text \<open>
  The loop \<^verbatim>\<open>while True\<close> that finds the next valid key. It has no bound of its
  own, so it runs on fuel: \<open>None\<close> is a loop that has not ended within the fuel. The
  first component of a result is the exception raised, if any (\<^verbatim>\<open>self.keys[self.key_ctr]\<close>
  out of range).
\<close>

fun select_key :: "nat \<Rightarrow> gptapi \<Rightarrow> (exn option \<times> gptapi) option" where
  "select_key 0 self = None"
| "select_key (Suc fuel) self =
     (let ctr = (if key_ctr self + 1 = length (keys self) then 0 else key_ctr self + 1);
          self1 = self\<lparr>key_ctr := ctr\<rparr>
      in if \<not> ctr < length (keys self) then Some (Some IndexError, self1)
         else if keys self ! ctr |\<notin>| invalid_keys self then Some (None, self1)
         else select_key fuel self1)"

text \<open>The rotation of the organisation counter, done when \<^verbatim>\<open>self.orgs\<close> is truthy.\<close>

definition next_org :: "gptapi \<Rightarrow> gptapi" where
  "next_org self =
     (if orgs self = [] then self
      else self\<lparr>org_ctr := (if org_ctr self + 1 = length (orgs self) then 0
                             else org_ctr self + 1)\<rparr>)"

text \<open>
  The retry loop of \<^verbatim>\<open>_chat\<close>, on fuel. \<open>n\<close> is \<^verbatim>\<open>max_num_retries\<close>, \<open>req\<close> the pair
  \<^verbatim>\<open>header, data\<close> (\<open>None\<close> for the pair of empty strings, on which the assignment
  to \<^verbatim>\<open>header['Authorization']\<close> is a \<^verbatim>\<open>TypeError\<close>), \<open>calls\<close> counts the HTTP calls
  made. A result is the value returned or the exception raised, the state left behind
  and the number of HTTP calls.
\<close>

fun retry_loop ::
  "nat \<Rightarrow> 'p endpoint \<Rightarrow> (header \<times> 'p params) option \<Rightarrow> int \<Rightarrow> string \<Rightarrow> gptapi \<Rightarrow> nat
     \<Rightarrow> ((exn + string) \<times> gptapi \<times> nat) option" where
  "retry_loop 0 ep req n errmsg self calls = None"
| "retry_loop (Suc fuel) ep req n errmsg self calls =
     (if \<not> n < retry self then Some (Inl (CallingFailed n errmsg), self, calls)
      else if fcard (invalid_keys self) = length (keys self)
      then Some (Inl AllKeysInsufficientQuota, self, calls)
      else
        (case select_key fuel self of
           None \<Rightarrow> None
         | Some (Some e, self1) \<Rightarrow> Some (Inl e, self1, calls)
         | Some (None, self1) \<Rightarrow>
             (case req of
                None \<Rightarrow> Some (Inl TypeError, self1, calls)
              | Some (hdr, data) \<Rightarrow>
                  (let key = keys self1 ! key_ctr self1;
                       hdr1 = hdr\<lparr>authorization := Some (''Bearer '' @ key)\<rparr>;
                       self2 = next_org self1
                   in if orgs self2 \<noteq> [] \<and> \<not> org_ctr self2 < length (orgs self2)
                      then Some (Inl IndexError, self2, calls)
                      else
                        (let hdr2 = (if orgs self2 = [] then hdr1
                                     else hdr1\<lparr>organization := Some (orgs self2 ! org_ctr self2)\<rparr>)
                         in case ep calls hdr2 data of
                              ConnectionError tb \<Rightarrow>
                                retry_loop fuel ep (Some (hdr2, data)) n
                                  (''Got connection error '' @ tb) self2 (Suc calls)
                            | JSONDecodeError c \<Rightarrow>
                                retry_loop fuel ep (Some (hdr2, data)) n
                                  (''JsonDecode error, got '' @ c) self2 (Suc calls)
                            | Completion c \<Rightarrow> Some (Inr (strip c), self2, Suc calls)
                            | NoCompletion None \<Rightarrow>
                                retry_loop fuel ep (Some (hdr2, data)) (n + 1) errmsg self2 (Suc calls)
                            | NoCompletion (Some err) \<Rightarrow>
                                (case code err of
                                   None \<Rightarrow> Some (Inl KeyError, self2, Suc calls)
                                 | Some cd \<Rightarrow>
                                     if cd = ''rate_limit_exceeded''
                                     then retry_loop fuel ep (Some (hdr2, data)) n errmsg self2
                                            (Suc calls)
                                     else if cd = ''insufficient_quota''
                                     then retry_loop fuel ep (Some (hdr2, data)) n errmsg
                                            (self2\<lparr>invalid_keys := finsert key (invalid_keys self2)\<rparr>)
                                            (Suc calls)
                                     else retry_loop fuel ep (Some (hdr2, data)) (n + 1)
                                            (''Find error message in response: '' @ text_of err)
                                            self2 (Suc calls))
                            | OtherException msg \<Rightarrow>
                                retry_loop fuel ep (Some (hdr2, data)) (n + 1) msg self2
                                  (Suc calls))))))"

text \<open>
  \<^verbatim>\<open>GPTAPI._chat(messages, **gen_params)\<close>. The template parser is the attribute
  \<^verbatim>\<open>self.template_parser\<close> set by the base class, taken as a parameter.
\<close>

definition chat_one ::
  "nat \<Rightarrow> (pyval \<Rightarrow> exn + 'p) \<Rightarrow> 'p endpoint \<Rightarrow> gptapi \<Rightarrow> pyval \<Rightarrow> 'p params
     \<Rightarrow> ((exn + string) \<times> gptapi \<times> nat) option" where
  "chat_one fuel template_parser ep self messages gen_params =
     (case messages of
        Lst ms \<Rightarrow>
          (case template_parser messages of
             Inl e \<Rightarrow> Some (Inl e, self, 0)
           | Inr rendered \<Rightarrow>
               (case generate_request_data (model_type self) rendered gen_params (json_mode self) of
                  Inl e \<Rightarrow> Some (Inl e, self, 0)
                | Inr req \<Rightarrow> retry_loop fuel ep req 0 [] self 0))
      | _ \<Rightarrow> Some (Inl AssertionError, self, 0))"

text \<open>
  \<^verbatim>\<open>[task.result() for task in tasks]\<close>: \<^verbatim>\<open>result()\<close> returns the value of a task or
  raises the exception the task ended with.
\<close>

fun results :: "(exn + 'a) list \<Rightarrow> exn + 'a list" where
  "results [] = Inr []"
| "results (Inl e # tasks) = Inl e"
| "results (Inr r # tasks) = (case results tasks of Inl e \<Rightarrow> Inl e | Inr ret \<Rightarrow> Inr (r # ret))"

text \<open>\<^verbatim>\<open>isinstance(v, dict)\<close>.\<close>

fun is_dict :: "pyval \<Rightarrow> bool" where
  "is_dict (Msg m) = True"
| "is_dict v = False"

text \<open>
  \<^verbatim>\<open>GPTAPI.chat(inputs)\<close>. The worker threads are not modelled: \<open>submit i messages\<close>
  is how the \<open>i\<close>-th submitted call \<^verbatim>\<open>self._chat(messages)\<close> ends, a value, an
  exception, or \<open>None\<close> when it never ends. Leaving the \<^verbatim>\<open>with\<close> block waits for every
  task, so \<^verbatim>\<open>chat\<close> returns only when all of them have ended.
\<close>

definition chat :: "(nat \<Rightarrow> pyval \<Rightarrow> (exn + string) option) \<Rightarrow> pyval list \<Rightarrow> (exn + pyval) option" where
  "chat submit inputs =
     (case inputs of
        [] \<Rightarrow> Some (Inl IndexError)
      | first # rest \<Rightarrow>
          (let batch = (if is_dict first then [Lst inputs] else inputs);
               tasks = map (\<lambda>(i, messages). submit i messages) (enumerate 0 batch)
           in if None \<in> set tasks then None
              else
                (case results (map the tasks) of
                   Inl e \<Rightarrow> Some (Inl e)
                 | Inr ret \<Rightarrow>
                     if is_dict first
                     then (case ret of [] \<Rightarrow> Some (Inl IndexError) | r # rs \<Rightarrow> Some (Inr (Raw r)))
                     else Some (Inr (Lst (map Raw ret))))))"

section \<open>Notions used to state the properties\<close>

text \<open>
  The configuration a turn resolves to: lines 57 to 60 of \<^verbatim>\<open>_prompt2str\<close> on their
  own, \<open>None\<close> where the source has no configuration to go on with.
\<close>

definition resolved_cfg :: "parser \<Rightarrow> message \<Rightarrow> role_cfg option" where
  "resolved_cfg self m =
     (case roles self of
        None \<Rightarrow> None
      | Some rs \<Rightarrow>
          (case msg_role m of
             None \<Rightarrow> None
           | Some r \<Rightarrow>
               (case rs r of
                  None \<Rightarrow> None
                | Some first \<Rightarrow>
                    (case cfg_fallback_role first of
                       None \<Rightarrow> Some first
                     | Some fb \<Rightarrow> if fb = [] then Some first else rs fb))))"

text \<open>The role table of a meta template whose role names are distinct.\<close>

definition role_table :: "role_cfg list \<Rightarrow> (string \<rightharpoonup> role_cfg)" where
  "role_table items = map_of (map (\<lambda>c. (cfg_role c, c)) items)"

subsection \<open>Concrete inputs\<close>

definition mk_role :: "string \<Rightarrow> string \<Rightarrow> string \<Rightarrow> bool option \<Rightarrow> role_cfg" where
  "mk_role r b e g =
     \<lparr>cfg_role = r, cfg_begin = Some (BeginStr b), cfg_end = Some e,
      cfg_fallback_role = None, cfg_generate = g\<rparr>"

definition turn :: "string \<Rightarrow> string \<Rightarrow> message" where
  "turn r c = \<lparr>msg_role = Some r, msg_content = Some c, msg_name = None\<rparr>"

text \<open>The meta template of the specification's example.\<close>

definition example_template :: "role_cfg list" where
  "example_template =
     [mk_role ''system'' ''<S>'' ''</S>'' None,
      mk_role ''user'' ''<U>'' ''</U>'' None,
      mk_role ''assistant'' ''<A>'' ''</A>'' (Some True)]"

definition example_parser :: parser where
  "example_parser =
     \<lparr>meta_template = Some example_template, roles = Some (role_table example_template)\<rparr>"

text \<open>A role \<^verbatim>\<open>bot\<close> that falls back to an assistant role without the generate flag.\<close>

definition fallback_template :: "role_cfg list" where
  "fallback_template =
     [mk_role ''assistant'' ''<A>'' ''</A>'' None,
      \<lparr>cfg_role = ''bot'', cfg_begin = None, cfg_end = None,
       cfg_fallback_role = Some ''assistant'', cfg_generate = None\<rparr>]"

definition fallback_parser :: parser where
  "fallback_parser =
     \<lparr>meta_template = Some fallback_template, roles = Some (role_table fallback_template)\<rparr>"

text \<open>A role whose fallback role names no role of the template.\<close>

definition dangling_role :: role_cfg where
  "dangling_role =
     \<lparr>cfg_role = ''user'', cfg_begin = Some (BeginStr ''<U>''), cfg_end = Some ''</U>'',
      cfg_fallback_role = Some ''ghost'', cfg_generate = None\<rparr>"

definition dangling_template :: "role_cfg list" where
  "dangling_template = [dangling_role]"

text \<open>
  A client with one key and retry budget \<open>n\<close>, and the same client once its key has
  been invalidated.
\<close>

definition demo_api :: "int \<Rightarrow> gptapi" where
  "demo_api n =
     \<lparr>keys = [''k''], invalid_keys = {||}, key_ctr = 0, orgs = [], org_ctr = 0,
      retry = n, model_type = ''gpt-4o-mini'', json_mode = False\<rparr>"

definition exhausted_api :: "int \<Rightarrow> gptapi" where
  "exhausted_api n =
     \<lparr>keys = [''k''], invalid_keys = {|''k''|}, key_ctr = 0, orgs = [], org_ctr = 0,
      retry = n, model_type = ''gpt-4o-mini'', json_mode = False\<rparr>"

text \<open>
  The client \<^verbatim>\<open>GPTAPI(key=['k', 'k'], retry=2)\<close> as \<^verbatim>\<open>__init__\<close> leaves it, with the
  same key twice in its list, and the state it is in after one pass that ended with
  \<^verbatim>\<open>insufficient_quota\<close>.
\<close>

definition duplicate_api :: gptapi where
  "duplicate_api =
     \<lparr>keys = [''k'', ''k''], invalid_keys = {||}, key_ctr = 0, orgs = [], org_ctr = 0,
      retry = 2, model_type = ''gpt-4o-mini'', json_mode = False\<rparr>"

definition duplicate_api_invalidated :: gptapi where
  "duplicate_api_invalidated =
     \<lparr>keys = [''k'', ''k''], invalid_keys = {|''k''|}, key_ctr = 1, orgs = [], org_ctr = 0,
      retry = 2, model_type = ''gpt-4o-mini'', json_mode = False\<rparr>"

text \<open>A client with two keys, the second of them invalidated.\<close>

definition two_keys_api :: gptapi where
  "two_keys_api =
     \<lparr>keys = [''a'', ''b''], invalid_keys = {|''b''|}, key_ctr = 0, orgs = [], org_ctr = 0,
      retry = 2, model_type = ''gpt-4o-mini'', json_mode = False\<rparr>"

text \<open>
  An endpoint that answers every call with the error code \<^verbatim>\<open>insufficient_quota\<close>.
\<close>

definition quota_exceeded :: "string endpoint" where
  "quota_exceeded i hdr data =
     NoCompletion (Some \<lparr>code = Some ''insufficient_quota'', text_of = ''quota''\<rparr>)"

definition demo_params :: "string params" where
  "demo_params = [''max_new_tokens'' \<mapsto> VInt 512]"

definition demo_turns :: "pyval list" where
  "demo_turns = [Msg (turn ''user'' ''y'')]"

text \<open>
  An endpoint on which every call raises \<^verbatim>\<open>requests.ConnectionError\<close>, and one on
  which the first \<open>k\<close> calls do and the next one answers.
\<close>

definition connection_down :: "string endpoint" where
  "connection_down i hdr data = ConnectionError ''refused''"

definition recovers_after :: "nat \<Rightarrow> string endpoint" where
  "recovers_after k i hdr data = (if i < k then ConnectionError ''refused'' else Completion '' ok '')"

text \<open>
  How the submitted calls end: all with an answer; the second with
  \<^verbatim>\<open>NotImplementedError\<close>; and as \<^verbatim>\<open>chat\<close> submits them, \<^verbatim>\<open>self._chat(messages)\<close>
  with no generation parameters.
\<close>

definition all_answer :: "nat \<Rightarrow> pyval \<Rightarrow> (exn + string) option" where
  "all_answer i messages = Some (Inr ''ok'')"

definition second_fails :: "nat \<Rightarrow> pyval \<Rightarrow> (exn + string) option" where
  "second_fails i messages = (if i = 1 then Some (Inl NotImplementedError) else Some (Inr ''ok''))"

definition submit_chat_one :: "nat \<Rightarrow> pyval \<Rightarrow> (exn + string) option" where
  "submit_chat_one i messages =
     map_option fst (chat_one 1 (call example_format example_parser) connection_down
                       (demo_api 2) messages Map.empty)"

lemmas example_defs =
  example_parser_def example_template_def fallback_parser_def fallback_template_def
  dangling_template_def dangling_role_def mk_role_def turn_def role_table_def resolved_cfg_def
  format_begin_def truthy_template_def get_str_def empty_message_def prompt2str_def

section \<open>The template parser: construction\<close>

lemma init_roles_duplicate:
  "\<not> distinct (map cfg_role items) \<or> (\<exists>c \<in> set items. cfg_role c \<in> dom rs)
   \<Longrightarrow> init_roles items rs = Inl AssertionError"
proof (induction items arbitrary: rs)
  case Nil
  then show ?case by simp
next
  case (Cons item items)
  show ?case
  proof (cases "cfg_role item \<in> dom rs")
    case True
    then show ?thesis by simp
  next
    case False
    from Cons.prems False
    have "\<not> distinct (map cfg_role items)
          \<or> (\<exists>c \<in> set items. cfg_role c \<in> dom (rs(cfg_role item \<mapsto> item)))"
      by auto
    then have "init_roles items (rs(cfg_role item \<mapsto> item)) = Inl AssertionError"
      by (rule Cons.IH)
    moreover have "init_roles (item # items) rs = init_roles items (rs(cfg_role item \<mapsto> item))"
      using False by simp
    ultimately show ?thesis by (simp only:)
  qed
qed

lemma role_table_none:
  "r \<notin> cfg_role ` set mt \<Longrightarrow> role_table mt r = None"
  unfolding role_table_def by (induction mt) auto

lemma role_table_Cons:
  "role_table (item # items) = (role_table items)(cfg_role item \<mapsto> item)"
  by (simp add: role_table_def)

lemma role_table_member:
  "distinct (map cfg_role mt) \<Longrightarrow> c \<in> set mt \<Longrightarrow> role_table mt (cfg_role c) = Some c"
  unfolding role_table_def by (induction mt) (auto simp: image_iff)

lemma init_roles_distinct:
  "distinct (map cfg_role items) \<Longrightarrow> \<forall>c \<in> set items. cfg_role c \<notin> dom rs
   \<Longrightarrow> init_roles items rs = Inr (rs ++ role_table items)"
proof (induction items arbitrary: rs)
  case Nil
  then show ?case by (simp add: role_table_def)
next
  case (Cons item items)
  have fresh: "cfg_role item \<notin> cfg_role ` set items" and rest: "distinct (map cfg_role items)"
    using Cons.prems(1) by simp_all
  have notin: "cfg_role item \<notin> dom (role_table items)"
    using role_table_none [OF fresh] by (simp add: domIff)
  have new: "cfg_role item \<notin> dom rs"
    using Cons.prems(2) by simp
  have "\<forall>c \<in> set items. cfg_role c \<notin> dom (rs(cfg_role item \<mapsto> item))"
    using Cons.prems(2) fresh by (auto simp: image_iff)
  with rest have "init_roles items (rs(cfg_role item \<mapsto> item))
          = Inr (rs(cfg_role item \<mapsto> item) ++ role_table items)"
    by (rule Cons.IH)
  moreover have "rs(cfg_role item \<mapsto> item) ++ role_table items
                   = rs ++ role_table (item # items)"
    using map_add_upd_left [OF notin, of rs item] by (simp only: role_table_Cons map_add_upd)
  moreover have "init_roles (item # items) rs = init_roles items (rs(cfg_role item \<mapsto> item))"
    using new by simp
  ultimately show ?case by (simp only:)
qed

lemma init_distinct:
  assumes "distinct (map cfg_role mt)" and "mt \<noteq> []"
  shows "init (Some mt) = Inr \<lparr>meta_template = Some mt, roles = Some (role_table mt)\<rparr>"
proof -
  have "init_roles mt Map.empty = Inr (Map.empty ++ role_table mt)"
    using assms(1) by (intro init_roles_distinct) auto
  then show ?thesis using assms(2) by (cases mt) (simp_all add: init_def)
qed

lemma init_example: "init (Some example_template) = Inr example_parser"
  unfolding example_parser_def
  by (rule init_distinct) (simp_all add: example_template_def mk_role_def)

lemma init_fallback: "init (Some fallback_template) = Inr fallback_parser"
  unfolding fallback_parser_def
  by (rule init_distinct) (simp_all add: fallback_template_def mk_role_def)

text \<open>
  C8. For every meta template in which two entries share a role name, construction
  fails: \<^verbatim>\<open>__init__\<close> raises the \<^verbatim>\<open>AssertionError\<close> "role in meta prompt must be
  unique!", which is the configuration error of the specification.
\<close>

theorem init_duplicate_roles:
  "\<not> distinct (map cfg_role mt) \<Longrightarrow> init (Some mt) = Inl AssertionError"
proof -
  assume dup: "\<not> distinct (map cfg_role mt)"
  then have "init_roles mt Map.empty = Inl AssertionError"
    by (intro init_roles_duplicate) simp
  moreover from dup obtain item items where "mt = item # items"
    by (cases mt) auto
  ultimately show ?thesis by (simp add: init_def)
qed

theorem init_duplicate_roles_witness:
  "\<not> distinct (map cfg_role [mk_role ''user'' ''<U>'' ''</U>'' None,
                                mk_role ''user'' ''<V>'' ''</V>'' None])
   \<and> init (Some [mk_role ''user'' ''<U>'' ''</U>'' None,
                  mk_role ''user'' ''<V>'' ''</V>'' None]) = Inl AssertionError"
  using init_duplicate_roles [of "[mk_role ''user'' ''<U>'' ''</U>'' None,
                                   mk_role ''user'' ''<V>'' ''</V>'' None]"]
  by (simp add: mk_role_def)

text \<open>
  C4 (counterexample). The claim says that a fallback role naming no role makes
  construction fail. The template below has one role, \<^verbatim>\<open>user\<close>, whose fallback role
  \<^verbatim>\<open>ghost\<close> is not in the role table, and construction succeeds.
\<close>

theorem init_dangling_fallback_counterexample:
  "init (Some dangling_template)
     = Inr \<lparr>meta_template = Some dangling_template, roles = Some (role_table dangling_template)\<rparr>
   \<and> cfg_fallback_role dangling_role = Some ''ghost''
   \<and> role_table dangling_template ''ghost'' = None"
  by (simp add: init_def dangling_template_def dangling_role_def role_table_def)

lemma prompt2str_dangling:
  assumes "roles self = Some rs" and "msg_role m = Some r" and "rs r = Some c"
    and "cfg_fallback_role c = Some fb" and "fb \<noteq> []" and "rs fb = None"
  shows "prompt2str fmt self (Msg m) l =
           Inl (if msg_name m = None then AttributeError else TypeError)"
  using assms by (simp add: prompt2str_def format_begin_def split: option.splits)

text \<open>
  C4 (amended). Construction checks the uniqueness of the role names and nothing
  else: a non-empty meta template with distinct role names is accepted whatever its
  fallback roles are. A fallback role that names no role surfaces when a turn of
  that role is rendered: \<^verbatim>\<open>_prompt2str\<close> then fails, with \<^verbatim>\<open>AttributeError\<close> for a turn
  without a name and \<^verbatim>\<open>TypeError\<close> for a turn with one.
\<close>

theorem init_accepts_dangling_fallback:
  assumes "distinct (map cfg_role mt)" and "mt \<noteq> []"
    and "c \<in> set mt" and "cfg_fallback_role c = Some fb" and "fb \<noteq> []"
    and "fb \<notin> cfg_role ` set mt" and "msg_role m = Some (cfg_role c)"
  shows "\<exists>self. init (Some mt) = Inr self
           \<and> prompt2str fmt self (Msg m) l =
               Inl (if msg_name m = None then AttributeError else TypeError)"
proof -
  let ?self = "\<lparr>meta_template = Some mt, roles = Some (role_table mt)\<rparr>"
  have "init (Some mt) = Inr ?self" using assms(1,2) by (rule init_distinct)
  moreover have "prompt2str fmt ?self (Msg m) l =
                   Inl (if msg_name m = None then AttributeError else TypeError)"
  proof (rule prompt2str_dangling [where rs = "role_table mt" and c = c and fb = fb])
    show "roles ?self = Some (role_table mt)" by simp
    show "role_table mt (cfg_role c) = Some c"
      using assms(1,3) by (rule role_table_member)
    show "role_table mt fb = None"
      using assms(6) by (rule role_table_none)
  qed (use assms in simp_all)
  ultimately show ?thesis by blast
qed

theorem init_accepts_dangling_fallback_witness:
  "\<exists>self. init (Some dangling_template) = Inr self
      \<and> prompt2str example_format self (Msg (turn ''user'' ''q'')) True = Inl AttributeError"
  using init_accepts_dangling_fallback [of dangling_template dangling_role "''ghost''"
      "turn ''user'' ''q''" example_format True]
  by (simp add: dangling_template_def dangling_role_def turn_def)

section \<open>The template parser: rendering\<close>

text \<open>
  C7. A dialogue that is already a string is returned unchanged, whatever the parser
  was constructed with.
\<close>

theorem call_string: "call fmt self (Raw s) = Inr s"
  by (simp add: call_def)

text \<open>
  C10. With a parser constructed without a meta template, a call on a list never
  returns the dialogue or a rendered string: the variable \<^verbatim>\<open>prompt\<close> is assigned only
  on the branch of the meta template, and \<^verbatim>\<open>return prompt\<close> raises
  \<^verbatim>\<open>UnboundLocalError\<close>.
\<close>

theorem call_no_meta_template:
  "meta_template self = None \<Longrightarrow> call fmt self (Lst items) = Inl UnboundLocalError"
  by (simp add: call_def truthy_template_def)

theorem call_no_meta_template_witness:
  "init None = Inr \<lparr>meta_template = None, roles = None\<rparr>
   \<and> call example_format \<lparr>meta_template = None, roles = None\<rparr>
        (Lst [Msg (turn ''user'' ''y'')]) = Inl UnboundLocalError"
  using call_no_meta_template [of "\<lparr>meta_template = None, roles = None\<rparr>" example_format
      "[Msg (turn ''user'' ''y'')]"]
  by (simp add: init_def)

lemma render_loop_append:
  "render_loop fmt self n i (xs @ ys) acc =
     (case render_loop fmt self n i xs acc of
        Inl e \<Rightarrow> Inl e
      | Inr a \<Rightarrow> render_loop fmt self n (i + length xs) ys a)"
  by (induction xs arbitrary: i acc) (auto split: pyval.splits sum.splits)

lemma call_last_turn:
  assumes "truthy_template (meta_template self)"
    and "render_loop fmt self (Suc (length ds)) 0 ds [] = Inr pre"
  shows "call fmt self (Lst (ds @ [Msg m])) =
     (case prompt2str fmt self (Msg m) True of Inl e \<Rightarrow> Inl e | Inr s \<Rightarrow> Inr (pre @ s))"
  using assms by (simp add: call_def render_loop_append split: sum.splits)

lemma prompt2str_resolved:
  assumes "roles self = Some rs" and "resolved_cfg self m = Some mp"
    and "format_begin fmt (Some mp) m = Inr b"
  shows "prompt2str fmt self (Msg m) l =
     (if l \<and> cfg_generate mp = Some True then Inr (b @ get_str (msg_content m))
      else if l \<and> cfg_role mp \<noteq> ''assistant''
      then (case rs ''assistant'' of
              None \<Rightarrow> Inl KeyError
            | Some a \<Rightarrow>
                (case format_begin fmt (Some a) empty_message of
                   Inl e \<Rightarrow> Inl e
                 | Inr ab \<Rightarrow> Inr (b @ get_str (msg_content m) @ get_str (cfg_end mp) @ ab)))
      else Inr (b @ get_str (msg_content m) @ get_str (cfg_end mp)))"
proof -
  obtain r first where r: "msg_role m = Some r"
    and first: "rs r = Some first"
    and mp: "(case cfg_fallback_role first of None \<Rightarrow> Some first
              | Some fb \<Rightarrow> if fb = [] then Some first else rs fb) = Some mp"
    using assms(1,2) unfolding resolved_cfg_def by (auto split: option.splits)
  show ?thesis
    unfolding prompt2str_def using assms(3)
    by (simp add: assms(1) r first mp Let_def split: option.splits sum.splits)
qed

lemma resolved_cfg_roles:
  "resolved_cfg self m = Some mp \<Longrightarrow> \<exists>rs. roles self = Some rs"
  unfolding resolved_cfg_def by (cases "roles self") simp_all

text \<open>
  C5. When the last turn of a dialogue resolves to a configuration flagged
  \<^verbatim>\<open>generate\<close>, the rendering is what the turns before it rendered to, then the begin
  phrase of the last turn, then its raw content, and nothing after that. The turns
  before the last are those of the loop with \<^verbatim>\<open>len(dialog)\<close> one more than their
  number, so none of them is treated as last.
\<close>

theorem render_generate_last:
  assumes "truthy_template (meta_template self)"
    and "resolved_cfg self m = Some mp"
    and "cfg_generate mp = Some True"
    and "format_begin fmt (Some mp) m = Inr begin"
    and "render_loop fmt self (Suc (length ds)) 0 ds [] = Inr pre"
  shows "call fmt self (Lst (ds @ [Msg m])) = Inr (pre @ begin @ get_str (msg_content m))"
proof -
  from resolved_cfg_roles [OF assms(2)] obtain rs where "roles self = Some rs" ..
  from prompt2str_resolved [OF this assms(2,4)] assms(3)
  have "prompt2str fmt self (Msg m) True = Inr (begin @ get_str (msg_content m))"
    by simp
  then show ?thesis
    using call_last_turn [OF assms(1,5)] by simp
qed

text \<open>
  The single assistant turn of the specification: the example parser flags the
  assistant role \<^verbatim>\<open>generate\<close>, and the turn renders to its begin phrase and content.
\<close>

theorem render_generate_last_witness:
  "call example_format example_parser (Lst [Msg (turn ''assistant'' ''hi'')]) = Inr ''<A>hi''"
  using render_generate_last [of example_parser "turn ''assistant'' ''hi''"
      "mk_role ''assistant'' ''<A>'' ''</A>'' (Some True)" example_format "''<A>''" "[]" "[]"]
  by (simp add: example_defs)

text \<open>
  C6 (counterexample). The claim is about a last turn whose own role is not the
  assistant role. The turn below has the role \<^verbatim>\<open>bot\<close>, which falls back to an
  assistant role that is not flagged \<^verbatim>\<open>generate\<close>; the rendering is the turn's begin,
  content and end, and the assistant's begin phrase \<^verbatim>\<open><A>\<close> is not appended.
\<close>

theorem render_fallback_to_assistant_counterexample:
  "init (Some fallback_template) = Inr fallback_parser
   \<and> msg_role (turn ''bot'' ''x'') \<noteq> Some ''assistant''
   \<and> resolved_cfg fallback_parser (turn ''bot'' ''x'')
       = Some (mk_role ''assistant'' ''<A>'' ''</A>'' None)
   \<and> cfg_generate (mk_role ''assistant'' ''<A>'' ''</A>'' None) \<noteq> Some True
   \<and> format_begin example_format (Some (mk_role ''assistant'' ''<A>'' ''</A>'' None)) empty_message
       = Inr ''<A>''
   \<and> call example_format fallback_parser (Lst [Msg (turn ''bot'' ''x'')]) = Inr ''<A>x</A>''"
  by (simp add: init_fallback) (simp add: example_defs call_def)

text \<open>
  C6 (amended). When the configuration the last turn resolves to (after the fallback)
  is not flagged \<^verbatim>\<open>generate\<close> and its role is not \<^verbatim>\<open>assistant\<close>, the rendering is what
  the turns before it rendered to, then the begin phrase, the content and the end of
  the last turn, then the begin phrase of the assistant role computed with no name.
\<close>

theorem render_primes_assistant:
  assumes "truthy_template (meta_template self)"
    and "resolved_cfg self m = Some mp"
    and "cfg_generate mp \<noteq> Some True"
    and "cfg_role mp \<noteq> ''assistant''"
    and "format_begin fmt (Some mp) m = Inr begin"
    and "roles self = Some rs" and "rs ''assistant'' = Some a"
    and "format_begin fmt (Some a) empty_message = Inr ab"
    and "render_loop fmt self (Suc (length ds)) 0 ds [] = Inr pre"
  shows "call fmt self (Lst (ds @ [Msg m])) =
           Inr (pre @ begin @ get_str (msg_content m) @ get_str (cfg_end mp) @ ab)"
proof -
  from prompt2str_resolved [OF assms(6,2,5)] assms(3,4,7,8)
  have "prompt2str fmt self (Msg m) True
          = Inr (begin @ get_str (msg_content m) @ get_str (cfg_end mp) @ ab)"
    by simp
  then show ?thesis
    using call_last_turn [OF assms(1,9)] by simp
qed

text \<open>The example of the specification: the prompt is \<^verbatim>\<open><S>x</S><U>y</U><A>\<close>.\<close>

theorem render_primes_assistant_witness:
  "call example_format example_parser
     (Lst [Msg (turn ''system'' ''x''), Msg (turn ''user'' ''y'')]) = Inr ''<S>x</S><U>y</U><A>''"
  using render_primes_assistant [of example_parser "turn ''user'' ''y''"
      "mk_role ''user'' ''<U>'' ''</U>'' None" example_format "''<U>''"
      "role_table example_template" "mk_role ''assistant'' ''<A>'' ''</A>'' (Some True)" "''<A>''"
      "[Msg (turn ''system'' ''x'')]" "''<S>x</S>''"]
  by (simp add: example_defs)

section \<open>The client: key selection\<close>

lemma select_key_sound:
  "select_key fuel self = Some (None, s') \<Longrightarrow>
     key_ctr s' < length (keys s') \<and> keys s' ! key_ctr s' |\<notin>| invalid_keys s'
     \<and> s' = self\<lparr>key_ctr := key_ctr s'\<rparr>"
proof (induction fuel arbitrary: self)
  case 0
  then show ?case by simp
next
  case (Suc fuel)
  let ?ctr = "if key_ctr self + 1 = length (keys self) then 0 else key_ctr self + 1"
  let ?self1 = "self\<lparr>key_ctr := ?ctr\<rparr>"
  show ?case
  proof (cases "?ctr < length (keys self) \<and> keys self ! ?ctr |\<in>| invalid_keys self")
    case True
    then have "select_key (Suc fuel) self = select_key fuel ?self1"
      by (simp add: Let_def)
    with Suc.prems have "select_key fuel ?self1 = Some (None, s')" by simp
    from Suc.IH [OF this] show ?thesis by simp
  next
    case False
    with Suc.prems show ?thesis
      by (auto simp: Let_def split: if_splits)
  qed
qed

text \<open>
  The scan is cyclic: a valid key \<open>d\<close> positions after the counter is reached within
  \<open>d\<close> rounds.
\<close>

lemma select_key_finds:
  "key_ctr self < length (keys self) \<Longrightarrow>
   1 \<le> d \<Longrightarrow> d \<le> fuel \<Longrightarrow>
   keys self ! ((key_ctr self + d) mod length (keys self)) |\<notin>| invalid_keys self \<Longrightarrow>
   \<exists>s'. select_key fuel self = Some (None, s')"
proof (induction fuel arbitrary: self d)
  case 0
  then show ?case by simp
next
  case (Suc fuel)
  let ?len = "length (keys self)"
  let ?ctr = "if key_ctr self + 1 = ?len then 0 else key_ctr self + 1"
  let ?self1 = "self\<lparr>key_ctr := ?ctr\<rparr>"
  have ctr_mod: "?ctr = (key_ctr self + 1) mod ?len"
    using Suc.prems(1) by auto
  have ctr_lt: "?ctr < ?len"
    using Suc.prems(1) by auto
  show ?case
  proof (cases "keys self ! ?ctr |\<notin>| invalid_keys self")
    case True
    with ctr_lt show ?thesis by (simp add: Let_def)
  next
    case False
    then have step: "select_key (Suc fuel) self = select_key fuel ?self1"
      using ctr_lt by (simp add: Let_def)
    have "d \<noteq> 1"
      using False Suc.prems(4) ctr_mod by auto
    with Suc.prems(2) have d2: "1 \<le> d - 1" by simp
    have dle: "d - 1 \<le> fuel" using Suc.prems(3) by simp
    have "(?ctr + (d - 1)) mod ?len = (key_ctr self + d) mod ?len"
    proof -
      have "(?ctr + (d - 1)) mod ?len = ((key_ctr self + 1) mod ?len + (d - 1)) mod ?len"
        by (simp only: ctr_mod)
      also have "\<dots> = (key_ctr self + 1 + (d - 1)) mod ?len"
        by (rule mod_add_left_eq)
      also have "key_ctr self + 1 + (d - 1) = key_ctr self + d"
        using Suc.prems(2) by simp
      finally show ?thesis .
    qed
    then have valid: "keys ?self1 ! ((key_ctr ?self1 + (d - 1)) mod length (keys ?self1))
                        |\<notin>| invalid_keys ?self1"
      using Suc.prems(4) by simp
    have "key_ctr ?self1 < length (keys ?self1)" using ctr_lt by simp
    from Suc.IH [OF this d2 dle valid] step show ?thesis by simp
  qed
qed

lemma select_key_terminates:
  assumes "key_ctr self < length (keys self)"
    and "k \<in> set (keys self)" and "k |\<notin>| invalid_keys self"
    and "length (keys self) \<le> fuel"
  shows "\<exists>s'. select_key fuel self = Some (None, s')"
proof -
  let ?len = "length (keys self)"
  let ?c = "key_ctr self"
  from assms(2) obtain j where j: "j < ?len" "keys self ! j = k"
    by (auto simp: in_set_conv_nth)
  define d where "d = (if ?c < j then j - ?c else ?len - ?c + j)"
  have d1: "1 \<le> d" using assms(1) j(1) by (auto simp: d_def)
  have dlen: "d \<le> ?len" using assms(1) j(1) by (auto simp: d_def)
  have "(?c + d) mod ?len = j"
  proof (cases "?c < j")
    case True
    then show ?thesis using j(1) by (simp add: d_def)
  next
    case False
    then have "?c + d = ?len + j" using assms(1) by (simp add: d_def)
    then show ?thesis using j(1) by simp
  qed
  then have "keys self ! ((?c + d) mod ?len) |\<notin>| invalid_keys self"
    using j(2) assms(3) by simp
  from select_key_finds [OF assms(1) d1 _ this, of fuel] dlen assms(4)
  show ?thesis by simp
qed

lemma fcard_all_keys:
  assumes "distinct ks" and "fset bad = set ks"
  shows "fcard bad = length ks"
proof -
  have "fcard bad = card (fset bad)" by (simp add: fcard.rep_eq)
  also have "\<dots> = length ks" using assms by (simp add: distinct_card)
  finally show ?thesis .
qed

lemma retry_loop_exhausted:
  assumes "distinct (keys self)" and "fset (invalid_keys self) = set (keys self)"
    and "n < retry self"
  shows "retry_loop (Suc fuel) ep req n errmsg self calls
           = Some (Inl AllKeysInsufficientQuota, self, calls)"
  using assms(3) fcard_all_keys [OF assms(1,2)] by simp

lemma demo_request:
  "generate_request_data (model_type (demo_api n)) rendered demo_params (json_mode (demo_api n))
     = Inr (Some (\<lparr>content_type = ''application/json'', authorization = None, organization = None\<rparr>,
                  request_body ''gpt-4o-mini'' rendered [''max_tokens'' \<mapsto> VInt 512] False))"
  by (simp add: generate_request_data_def demo_api_def demo_params_def startswith_def lower_def
      lower_char_def rename_key_def Let_def fun_upd_twist)

lemma demo_render: "call example_format example_parser (Lst demo_turns) = Inr ''<U>y</U><A>''"
  by (simp add: call_def demo_turns_def example_defs)

text \<open>
  Where the key list has no duplicates, the code does what is expected of it: the
  key a selection ends on is outside the invalidated set, a selection ends within
  \<^verbatim>\<open>len(keys)\<close> rounds when some key is outside the set, and with every key in the
  set \<^verbatim>\<open>_chat\<close> raises "All keys have insufficient quota." on its next pass, before
  any HTTP call.
\<close>

lemma key_selection_distinct_keys:
  "(select_key fuel self = Some (None, s') \<longrightarrow>
      key_ctr s' < length (keys s') \<and> keys s' ! key_ctr s' |\<notin>| invalid_keys s'
      \<and> keys s' = keys self \<and> invalid_keys s' = invalid_keys self)
   \<and> (key_ctr self < length (keys self) \<and> (\<exists>k \<in> set (keys self). k |\<notin>| invalid_keys self)
        \<and> length (keys self) \<le> fuel \<longrightarrow> (\<exists>s. select_key fuel self = Some (None, s)))
   \<and> (distinct (keys self) \<and> fset (invalid_keys self) = set (keys self) \<and> 0 < retry self
        \<and> template_parser (Lst ms) = Inr rendered
        \<and> generate_request_data (model_type self) rendered gen_params (json_mode self) = Inr req
        \<longrightarrow> chat_one (Suc fuel) template_parser ep self (Lst ms) gen_params
              = Some (Inl AllKeysInsufficientQuota, self, 0))"
proof (intro conjI impI)
  assume "select_key fuel self = Some (None, s')"
  from select_key_sound [OF this]
  have a: "key_ctr s' < length (keys s')" and b: "keys s' ! key_ctr s' |\<notin>| invalid_keys s'"
    and c: "s' = self\<lparr>key_ctr := key_ctr s'\<rparr>"
    by blast+
  show "key_ctr s' < length (keys s')" by (rule a)
  show "keys s' ! key_ctr s' |\<notin>| invalid_keys s'" by (rule b)
  have "keys s' = keys (self\<lparr>key_ctr := key_ctr s'\<rparr>)" using c by simp
  then show "keys s' = keys self" by simp
  have "invalid_keys s' = invalid_keys (self\<lparr>key_ctr := key_ctr s'\<rparr>)" using c by simp
  then show "invalid_keys s' = invalid_keys self" by simp
next
  assume "key_ctr self < length (keys self) \<and> (\<exists>k \<in> set (keys self). k |\<notin>| invalid_keys self)
        \<and> length (keys self) \<le> fuel"
  then show "\<exists>s. select_key fuel self = Some (None, s)"
    using select_key_terminates by blast
next
  assume h: "distinct (keys self) \<and> fset (invalid_keys self) = set (keys self) \<and> 0 < retry self
        \<and> template_parser (Lst ms) = Inr rendered
        \<and> generate_request_data (model_type self) rendered gen_params (json_mode self) = Inr req"
  then have "retry_loop (Suc fuel) ep req 0 [] self 0 = Some (Inl AllKeysInsufficientQuota, self, 0)"
    by (intro retry_loop_exhausted) simp_all
  with h show "chat_one (Suc fuel) template_parser ep self (Lst ms) gen_params
              = Some (Inl AllKeysInsufficientQuota, self, 0)"
    by (simp add: chat_one_def)
qed

text \<open>With the second of two keys invalidated, the selection passes over it.\<close>

lemma select_key_skips_invalidated:
  "select_key 2 two_keys_api = Some (None, two_keys_api)
   \<and> keys two_keys_api ! key_ctr two_keys_api = ''a''"
  by (simp add: eval_nat_numeral two_keys_api_def)

text \<open>
  A client with one key on the endpoint that always answers \<^verbatim>\<open>insufficient_quota\<close>:
  the first pass invalidates the key, the second raises "All keys have insufficient
  quota.", after one HTTP call.
\<close>

lemma chat_one_single_key_exhausted:
  "chat_one 5 (call example_format example_parser) quota_exceeded (demo_api 2)
     (Lst demo_turns) demo_params = Some (Inl AllKeysInsufficientQuota, exhausted_api 2, 1)"
  unfolding chat_one_def
  apply (simp add: demo_render demo_request)
  apply (simp add: eval_nat_numeral quota_exceeded_def demo_api_def exhausted_api_def next_org_def
      fcard_fempty fcard_finsert_if Let_def)
  done

text \<open>
  The check before the selection compares the size of the invalidated set with the
  length of the key list. With the same key twice in the list and that key
  invalidated, the sizes differ, the check passes and the selection never ends.
\<close>

lemma select_key_duplicates:
  "keys self = [k, k] \<Longrightarrow> k |\<in>| invalid_keys self \<Longrightarrow> key_ctr self < 2
   \<Longrightarrow> select_key fuel self = None"
proof (induction fuel arbitrary: self)
  case 0
  then show ?case by simp
next
  case (Suc fuel)
  let ?ctr = "if key_ctr self + 1 = length (keys self) then 0 else key_ctr self + 1"
  have lt: "?ctr < 2" using Suc.prems by auto
  then have "keys self ! ?ctr = k" using Suc.prems(1) by (auto simp: less_2_cases_iff)
  then have "select_key (Suc fuel) self = select_key fuel (self\<lparr>key_ctr := ?ctr\<rparr>)"
    using lt Suc.prems by (simp add: Let_def)
  also have "\<dots> = None"
    using lt Suc.prems by (intro Suc.IH) simp_all
  finally show ?case .
qed

lemma retry_loop_duplicates_invalidated:
  "retry_loop fuel ep req 0 errmsg duplicate_api_invalidated calls = None"
proof (cases fuel)
  case 0
  then show ?thesis by simp
next
  case (Suc f)
  have sel: "select_key f duplicate_api_invalidated = None"
    by (rule select_key_duplicates [where k = "''k''"])
       (simp_all add: duplicate_api_invalidated_def)
  have "0 < retry duplicate_api_invalidated"
    "fcard (invalid_keys duplicate_api_invalidated) \<noteq> length (keys duplicate_api_invalidated)"
    by (simp_all add: duplicate_api_invalidated_def fcard_finsert_if fcard_fempty)
  then show ?thesis unfolding Suc by (simp add: sel del: select_key.simps)
qed

text \<open>
  The first pass of the client with the duplicated key: the check passes (no key is
  invalidated yet), the key is selected and sent, the endpoint answers
  \<^verbatim>\<open>insufficient_quota\<close>, the key joins the invalidated set and the loop goes on with
  the counter \<^verbatim>\<open>max_num_retries\<close> as it was and one HTTP call made.
\<close>

lemma retry_loop_duplicates_first_pass:
  "retry_loop (Suc (Suc fuel)) quota_exceeded (Some (hdr, data)) 0 [] duplicate_api 0
     = retry_loop (Suc fuel) quota_exceeded
         (Some (hdr\<lparr>authorization := Some ''Bearer k''\<rparr>, data)) 0 []
         duplicate_api_invalidated 1"
  by (simp add: duplicate_api_def duplicate_api_invalidated_def quota_exceeded_def next_org_def
      fcard_fempty Let_def del: retry_loop.simps(2))
     (simp add: duplicate_api_def duplicate_api_invalidated_def quota_exceeded_def next_org_def
      fcard_fempty Let_def)

lemma duplicate_request:
  "generate_request_data (model_type duplicate_api) rendered demo_params (json_mode duplicate_api)
     = Inr (Some (\<lparr>content_type = ''application/json'', authorization = None, organization = None\<rparr>,
                  request_body ''gpt-4o-mini'' rendered [''max_tokens'' \<mapsto> VInt 512] False))"
  using demo_request [of 2 rendered] by (simp add: duplicate_api_def demo_api_def)

lemma chat_one_duplicate_keys:
  "chat_one fuel (call example_format example_parser) quota_exceeded duplicate_api
     (Lst demo_turns) demo_params = None"
proof -
  have "retry_loop fuel quota_exceeded (Some (hdr, data)) 0 [] duplicate_api 0 = None"
    for hdr and data :: "string params"
  proof (cases fuel)
    case 0
    then show ?thesis by simp
  next
    case (Suc f)
    show ?thesis
    proof (cases f)
      case 0
      then show ?thesis unfolding Suc by (simp add: duplicate_api_def fcard_fempty)
    next
      case (Suc g)
      show ?thesis
        unfolding \<open>fuel = Suc f\<close> Suc retry_loop_duplicates_first_pass
        by (rule retry_loop_duplicates_invalidated)
    qed
  qed
  then show ?thesis by (simp add: chat_one_def demo_render duplicate_request)
qed

text \<open>
  C3. The claim: key selection never selects an invalidated key while a valid one
  remains, and once every key is invalidated \<^verbatim>\<open>_chat\<close> fails with the error of the
  exhausted credentials before any HTTP call. The code at the client
  \<^verbatim>\<open>GPTAPI(key=['k', 'k'], retry=2)\<close> on an endpoint that answers
  \<^verbatim>\<open>insufficient_quota\<close>: the first pass invalidates \<^verbatim>\<open>k\<close>, which is every key; the
  check \<^verbatim>\<open>len(self.invalid_keys) == len(self.keys)\<close> compares 1 with 2 and does not
  raise, and the selection loop finds no valid key: \<^verbatim>\<open>_chat\<close> has not returned or
  raised within any number of rounds. The state after the first pass is reached with
  one HTTP call made, and from it the loop has not ended either. The client with the
  key once, on the same endpoint, raises "All keys have insufficient quota." after
  its one HTTP call.
\<close>

theorem duplicate_keys_never_exhausted:
  "chat_one fuel (call example_format example_parser) quota_exceeded duplicate_api
     (Lst demo_turns) demo_params = None
   \<and> retry_loop (Suc (Suc fuel)) quota_exceeded (Some (hdr, data)) 0 [] duplicate_api 0
       = retry_loop (Suc fuel) quota_exceeded
           (Some (hdr\<lparr>authorization := Some ''Bearer k''\<rparr>, data)) 0 []
           duplicate_api_invalidated 1
   \<and> fset (invalid_keys duplicate_api_invalidated) = set (keys duplicate_api_invalidated)
   \<and> retry_loop fuel quota_exceeded (Some (hdr, data)) 0 [] duplicate_api_invalidated 1 = None
   \<and> chat_one 5 (call example_format example_parser) quota_exceeded (demo_api 2)
       (Lst demo_turns) demo_params = Some (Inl AllKeysInsufficientQuota, exhausted_api 2, 1)"
  using chat_one_duplicate_keys retry_loop_duplicates_first_pass
    retry_loop_duplicates_invalidated chat_one_single_key_exhausted
  by (simp add: duplicate_api_invalidated_def)

section \<open>The client: the retry loop\<close>

lemma select_key_demo: "select_key (Suc fuel) (demo_api n) = Some (None, demo_api n)"
  by (simp add: demo_api_def)

text \<open>
  On a connection error the loop goes to its next pass with the counter
  \<^verbatim>\<open>max_num_retries\<close> as it was: the \<^verbatim>\<open>continue\<close> skips the increment at the end of
  the body. Whatever the fuel, the loop has not ended.
\<close>

lemma retry_loop_connection_down:
  "0 < n \<Longrightarrow> retry_loop fuel connection_down (Some (hdr, data)) 0 errmsg (demo_api n) calls = None"
proof (induction fuel arbitrary: hdr errmsg calls)
  case 0
  then show ?case by simp
next
  case (Suc fuel)
  show ?case
  proof (cases fuel)
    case 0
    then show ?thesis using Suc.prems by (simp add: demo_api_def fcard_fempty)
  next
    case (Suc f)
    have sel: "select_key fuel (demo_api n) = Some (None, demo_api n)"
      unfolding Suc by (rule select_key_demo)
    have org: "next_org (demo_api n) = demo_api n"
      by (simp add: next_org_def demo_api_def)
    have guard: "0 < retry (demo_api n)"
      "fcard (invalid_keys (demo_api n)) \<noteq> length (keys (demo_api n))"
      "orgs (demo_api n) = []"
      using Suc.prems by (simp_all add: demo_api_def fcard_fempty)
    show ?thesis
      using guard Suc.IH [OF Suc.prems]
      by (simp add: sel org connection_down_def Let_def del: select_key.simps)
  qed
qed

lemma chat_one_connection_down:
  "0 < n \<Longrightarrow>
     chat_one fuel (call example_format example_parser) connection_down (demo_api n)
       (Lst demo_turns) demo_params = None"
  unfolding chat_one_def
  by (simp add: demo_render demo_request retry_loop_connection_down)

lemma chat_one_recovers:
  "chat_one 10 (call example_format example_parser) (recovers_after 5) (demo_api 2)
     (Lst demo_turns) demo_params = Some (Inr ''ok'', demo_api 2, 6)"
  unfolding chat_one_def
  apply (simp add: demo_render demo_request)
  apply (simp add: eval_nat_numeral recovers_after_def demo_api_def next_org_def fcard_fempty
      strip_def is_space_def Let_def)
  done

lemma next_org_retry: "retry (next_org self) = retry self"
  by (simp add: next_org_def)

lemma select_key_retry:
  "select_key fuel self = Some (r, s') \<Longrightarrow> retry s' = retry self"
proof (induction fuel arbitrary: self)
  case 0
  then show ?case by simp
next
  case (Suc fuel)
  let ?ctr = "if key_ctr self + 1 = length (keys self) then 0 else key_ctr self + 1"
  let ?self1 = "self\<lparr>key_ctr := ?ctr\<rparr>"
  show ?case
  proof (cases "?ctr < length (keys self) \<and> keys self ! ?ctr |\<in>| invalid_keys self")
    case True
    then have "select_key (Suc fuel) self = select_key fuel ?self1"
      by (simp add: Let_def)
    with Suc.prems have "select_key fuel ?self1 = Some (r, s')" by simp
    from Suc.IH [OF this] show ?thesis by simp
  next
    case False
    with Suc.prems show ?thesis
      by (auto simp: Let_def split: if_splits)
  qed
qed

lemma select_key_error:
  "select_key fuel self = Some (Some e, s') \<Longrightarrow> e = IndexError"
proof (induction fuel arbitrary: self)
  case 0
  then show ?case by simp
next
  case (Suc fuel)
  let ?ctr = "if key_ctr self + 1 = length (keys self) then 0 else key_ctr self + 1"
  let ?self1 = "self\<lparr>key_ctr := ?ctr\<rparr>"
  show ?case
  proof (cases "?ctr < length (keys self) \<and> keys self ! ?ctr |\<in>| invalid_keys self")
    case True
    then have "select_key (Suc fuel) self = select_key fuel ?self1"
      by (simp add: Let_def)
    with Suc.prems have "select_key fuel ?self1 = Some (Some e, s')" by simp
    from Suc.IH [OF this] show ?thesis .
  next
    case False
    with Suc.prems show ?thesis
      by (auto simp: Let_def split: if_splits)
  qed
qed

text \<open>
  The same for every client and every budget: while every call raises a connection
  error, the error of the exhausted budget is never raised, since the counter stays
  below the budget.
\<close>

lemma retry_loop_never_exhausts:
  "n < retry self \<Longrightarrow>
   retry_loop fuel (\<lambda>i hdr data. ConnectionError tb) req n errmsg self calls
     \<noteq> Some (Inl (CallingFailed k msg), s', c')"
proof (induction fuel arbitrary: req errmsg self calls)
  case 0
  then show ?case by simp
next
  case (Suc fuel)
  show ?case
  proof (cases "fcard (invalid_keys self) = length (keys self)")
    case True
    with Suc.prems show ?thesis by simp
  next
    case False
    show ?thesis
    proof (cases "select_key fuel self")
      case None
      with Suc.prems False show ?thesis by simp
    next
      case (Some res)
      obtain r self1 where res: "res = (r, self1)" by (cases res)
      have keep: "retry self1 = retry self"
        using Some res by (auto dest: select_key_retry)
      show ?thesis
      proof (cases r)
        case (Some e)
        have "e = IndexError"
          using \<open>select_key fuel self = Some res\<close> res Some by (auto dest: select_key_error)
        with Suc.prems False \<open>select_key fuel self = Some res\<close> res Some
        show ?thesis by simp
      next
        case None
        show ?thesis
        proof (cases req)
          case None
          with Suc.prems False \<open>select_key fuel self = Some res\<close> res \<open>r = None\<close>
          show ?thesis by simp
        next
          case (Some hd)
          obtain hdr data where hd: "hd = (hdr, data)" by (cases hd)
          have "n < retry (next_org self1)" using Suc.prems keep by (simp add: next_org_retry)
          note IH = Suc.IH [OF this]
          show ?thesis
            using Suc.prems False \<open>select_key fuel self = Some res\<close> res \<open>r = None\<close> Some hd IH
            by (simp add: Let_def del: select_key.simps)
        qed
      qed
    qed
  qed
qed

text \<open>
  C1. The claim: every pass that does not succeed consumes one unit of the retry
  budget, so that with a budget of \<open>N\<close> and an endpoint that always fails with a
  transport error, \<^verbatim>\<open>_chat\<close> makes exactly \<open>N\<close> attempts and raises the error of the
  exhausted budget. The code at that input: with any budget \<open>n > 0\<close> and every call
  raising \<^verbatim>\<open>requests.ConnectionError\<close>, \<^verbatim>\<open>_chat\<close> has not returned or raised within
  any number of passes; and with a budget of 2 and five connection errors followed
  by an answer, it returns the answer at its sixth HTTP call.
\<close>

theorem retry_budget_connection_error:
  "(0 < n \<longrightarrow> chat_one fuel (call example_format example_parser) connection_down (demo_api n)
                  (Lst demo_turns) demo_params = None)
   \<and> chat_one 10 (call example_format example_parser) (recovers_after 5) (demo_api 2)
        (Lst demo_turns) demo_params = Some (Inr ''ok'', demo_api 2, 6)"
  using chat_one_connection_down chat_one_recovers by blast

theorem retry_budget_connection_error_witness:
  "(0 :: int) < 2
   \<and> chat_one 100 (call example_format example_parser) connection_down (demo_api 2)
        (Lst demo_turns) demo_params = None"
  using retry_budget_connection_error [of 2 100] by simp

section \<open>The client: batches\<close>

lemma results_all: "results (map Inr rs) = Inr rs"
  by (induction rs) simp_all

lemma results_first_failure: "results (map Inr rs @ Inl e # later) = Inl e"
  by (induction rs) simp_all

text \<open>
  \<^verbatim>\<open>chat\<close> calls \<^verbatim>\<open>self._chat(messages)\<close> with no generation parameters, and
  \<^verbatim>\<open>generate_request_data\<close> pops \<^verbatim>\<open>max_new_tokens\<close> from them: such a call ends with
  an exception before the retry loop, with the state untouched and no HTTP call.
\<close>

lemma chat_one_without_params:
  "\<exists>e. chat_one fuel template_parser ep self messages Map.empty = Some (Inl e, self, 0)"
  by (cases messages; cases "template_parser messages")
     (simp_all add: chat_one_def generate_request_data_def)

lemma chat_batch_unfold:
  assumes "inputs = first # rest" and "\<not> is_dict first"
  shows "chat submit inputs =
     (if None \<in> set (map (\<lambda>(i, messages). submit i messages) (enumerate 0 inputs)) then None
      else case results (map the (map (\<lambda>(i, messages). submit i messages) (enumerate 0 inputs))) of
             Inl e \<Rightarrow> Some (Inl e)
           | Inr ret \<Rightarrow> Some (Inr (Lst (map Raw ret))))"
  unfolding assms(1) using assms(2) by (simp add: chat_def Let_def split: sum.splits)

text \<open>
  C2 (counterexample). The claim says that a batch never raises for one of its
  items. With three dialogues of which the second ends with
  \<^verbatim>\<open>NotImplementedError\<close>, \<^verbatim>\<open>task.result()\<close> raises it again and \<^verbatim>\<open>chat\<close> ends with that
  exception instead of a list of three results. The same with the calls as \<^verbatim>\<open>chat\<close>
  submits them: each ends with \<^verbatim>\<open>KeyError\<close>, and so does \<^verbatim>\<open>chat\<close>.
\<close>

theorem chat_batch_raises_counterexample:
  "chat second_fails [Lst demo_turns, Lst demo_turns, Lst demo_turns] = Some (Inl NotImplementedError)
   \<and> chat submit_chat_one [Lst demo_turns, Lst demo_turns, Lst demo_turns] = Some (Inl KeyError)"
  by (simp add: chat_def second_fails_def submit_chat_one_def chat_one_def demo_render
      generate_request_data_def enumerate_eq_zip upt_rec)

text \<open>
  C2 (amended). For a batch (a non-empty list whose first element is not a dict) of
  which every call has ended: when every call returned a value, \<^verbatim>\<open>chat\<close> returns the
  list of these values, one for each input and in the order of the inputs; when some
  call raised, \<^verbatim>\<open>chat\<close> raises the exception of the first such call in the order of
  the inputs, and returns no list.
\<close>

theorem chat_batch_results:
  assumes "inputs = first # rest" and "\<not> is_dict first"
  shows "(map (\<lambda>(i, messages). submit i messages) (enumerate 0 inputs) = map (\<lambda>r. Some (Inr r)) rs
            \<longrightarrow> chat submit inputs = Some (Inr (Lst (map Raw rs))) \<and> length rs = length inputs)
       \<and> (map (\<lambda>(i, messages). submit i messages) (enumerate 0 inputs)
             = map (\<lambda>r. Some (Inr r)) rs @ Some (Inl e) # map Some later
            \<longrightarrow> chat submit inputs = Some (Inl e))"
proof (intro conjI impI)
  assume ok: "map (\<lambda>(i, messages). submit i messages) (enumerate 0 inputs) = map (\<lambda>r. Some (Inr r)) rs"
  have "length (map (\<lambda>(i, messages). submit i messages) (enumerate 0 inputs)) = length inputs"
    by simp
  then show "length rs = length inputs" unfolding ok by simp
  have the_ok: "map the (map (\<lambda>r. Some (Inr r)) rs) = map Inr rs"
    by (simp add: comp_def)
  have none_ok: "None \<notin> set (map (\<lambda>r. Some (Inr r)) rs)"
    by auto
  show "chat submit inputs = Some (Inr (Lst (map Raw rs)))"
    unfolding chat_batch_unfold [OF assms] ok the_ok results_all using none_ok by simp
next
  assume bad: "map (\<lambda>(i, messages). submit i messages) (enumerate 0 inputs)
             = map (\<lambda>r. Some (Inr r)) rs @ Some (Inl e) # map Some later"
  have the_bad: "map the (map (\<lambda>r. Some (Inr r)) rs @ Some (Inl e) # map Some later)
          = map Inr rs @ Inl e # later"
    by (simp add: comp_def)
  have none_bad: "None \<notin> set (map (\<lambda>r. Some (Inr r)) rs @ Some (Inl e) # map Some later)"
    by auto
  show "chat submit inputs = Some (Inl e)"
    unfolding chat_batch_unfold [OF assms] bad the_bad results_first_failure using none_bad by simp
qed

theorem chat_batch_results_witness:
  "chat all_answer [Lst demo_turns, Lst demo_turns, Lst demo_turns]
     = Some (Inr (Lst [Raw ''ok'', Raw ''ok'', Raw ''ok'']))
   \<and> chat second_fails [Lst demo_turns, Lst demo_turns, Lst demo_turns]
     = Some (Inl NotImplementedError)"
  using chat_batch_results [of "[Lst demo_turns, Lst demo_turns, Lst demo_turns]" "Lst demo_turns"
      "[Lst demo_turns, Lst demo_turns]" all_answer "[''ok'', ''ok'', ''ok'']"]
    chat_batch_results [of "[Lst demo_turns, Lst demo_turns, Lst demo_turns]" "Lst demo_turns"
      "[Lst demo_turns, Lst demo_turns]" second_fails "[''ok'']" NotImplementedError "[Inr ''ok'']"]
  by (simp add: all_answer_def second_fails_def enumerate_eq_zip upt_rec)

end
